theory Spec2Isabelle
  imports Main
begin

section \<open>Text\<close>

text \<open>
  \<open>list_freezones.py\<close> is one module body: it runs \<open>curl\<close> through
  \<open>subprocess.check_output\<close>, parses the captured bytes with \<open>json.loads\<close>, prints
  two header lines and one line per element of the parsed value, and on any exception
  prints \<open>Error: ...\<close> and exits with status 1.

  A Python string is a list of code points (numbers below \<open>0x110000\<close>, the lone
  surrogates \<open>0xD800\<close> to \<open>0xDFFF\<close> among them: \<open>json.loads\<close> returns them for the
  escapes \<open>\ud800\<close> to \<open>\udfff\<close>). The bytes that \<open>curl\<close> leaves are a \<open>string\<close> of 8-bit
  characters. The text of the program and of the interpreter's and the libraries' messages
  is ASCII: it is written as a \<open>String.literal\<close>, which holds 7-bit characters only.
\<close>

type_synonym pystr = "nat list"

definition lit :: "String.literal \<Rightarrow> pystr" where
  "lit l = map of_char (String.explode l)"

definition apostrophe :: String.literal where
  "apostrophe = String.implode [CHR 0x27]"

definition backslash :: String.literal where
  "backslash = String.implode [CHR 0x5C]"

definition ascii_only :: "pystr \<Rightarrow> bool" where
  "ascii_only s = list_all (\<lambda>c. c < 128) s"

text \<open>
  Decimal and hexadecimal digits; \<open>hex2\<close>, \<open>hex4\<close> and \<open>hex8\<close> write a number in two, four
  and eight lower-case hexadecimal digits.
\<close>

definition digit :: "nat \<Rightarrow> String.literal" where
  "digit n =
     [STR ''0'', STR ''1'', STR ''2'', STR ''3'', STR ''4'', STR ''5'', STR ''6'', STR ''7'',
      STR ''8'', STR ''9'', STR ''a'', STR ''b'', STR ''c'', STR ''d'', STR ''e'', STR ''f'']
     ! (n mod 16)"

fun digits :: "nat \<Rightarrow> String.literal" where
  "digits n = (if n < 10 then digit n else digits (n div 10) + digit (n mod 10))"

definition hex2 :: "nat \<Rightarrow> String.literal" where
  "hex2 n = digit (n div 16) + digit n"

definition hex4 :: "nat \<Rightarrow> String.literal" where
  "hex4 n = hex2 (n div 256) + hex2 n"

definition hex8 :: "nat \<Rightarrow> String.literal" where
  "hex8 n = hex4 (n div 65536) + hex4 n"

definition str_int :: "int \<Rightarrow> String.literal" where
  "str_int i = (if i < 0 then STR ''-'' + digits (nat (- i)) else digits (nat i))"

section \<open>Python values as \<open>json.loads\<close> returns them\<close>

text \<open>
  The values \<open>json.loads\<close> can return are \<open>None\<close>, booleans, integers, floats, strings,
  lists and dictionaries with string keys. A dictionary is an association list in
  insertion order (the order in which Python iterates and prints it); \<open>json.loads\<close>
  builds it with distinct keys. A float is carried by its \<open>repr\<close> (the shortest decimal
  text that reads back as the same float, or \<open>nan\<close>, \<open>inf\<close>, \<open>-inf\<close>), which is all the
  program ever does with it. The interpreter's resource limits (recursion depth, memory,
  the digits of an integer) are not modelled.
\<close>

datatype pyval =
    PyNone
  | PyBool bool
  | PyInt int
  | PyFloat String.literal
  | PyStr pystr
  | PyList "pyval list"
  | PyDict "(pystr \<times> pyval) list"

fun type_name :: "pyval \<Rightarrow> String.literal" where
  "type_name PyNone = STR ''NoneType''"
| "type_name (PyBool _) = STR ''bool''"
| "type_name (PyInt _) = STR ''int''"
| "type_name (PyFloat _) = STR ''float''"
| "type_name (PyStr _) = STR ''str''"
| "type_name (PyList _) = STR ''list''"
| "type_name (PyDict _) = STR ''dict''"

section \<open>Exceptions\<close>

text \<open>
  How the child process ended: with an exit status, or killed by a signal (Python's
  \<open>returncode\<close> is then negative; the text is what Python names the signal with, such
  as \<open><Signals.SIGKILL: 9>\<close> or \<open>unknown signal 70\<close>, always ASCII).
\<close>

datatype ending = Exited nat | Signalled String.literal

text \<open>
  The exceptions the module body can meet, all subclasses of \<open>Exception\<close>. \<open>OSError\<close>
  (the process could not be started) carries the operating system's description, which
  need not be ASCII. \<open>ValueError\<close> (\<open>json.loads\<close> refused the body: \<open>JSONDecodeError\<close> and
  \<open>UnicodeDecodeError\<close> are \<open>ValueError\<close>s; an exception of another class that
  \<open>json.loads\<close> raises is handled the same way, only its description is used) and
  \<open>UnicodeEncodeError\<close> (standard output cannot encode a text) carry the description
  their library gave them, which is ASCII (a character that cannot be encoded is written
  as an escape). \<open>KeyError\<close> carries the key, \<open>TypeError\<close> the interpreter's message.
\<close>

datatype exn =
    OSError pystr
  | CalledProcessError ending
  | ValueError String.literal
  | KeyError String.literal
  | TypeError String.literal
  | UnicodeEncodeError String.literal

section \<open>The Python installation\<close>

text \<open>
  What the module body takes from the installation it runs on:
  \<^item> \<open>json_loads\<close>, the library's \<open>json.loads\<close> on the captured bytes: a value, or the
    description of the exception it raises;
  \<^item> \<open>isprintable\<close>, the Unicode table behind \<open>repr\<close>: which code points from \<open>0x100\<close> on
    are printable (for the code points below \<open>0x100\<close> the model has the table itself);
  \<^item> \<open>encode_error\<close>, the encoder of standard output on a text that is not all ASCII:
    \<open>None\<close> when it encodes the text, or the description of the \<open>UnicodeEncodeError\<close> it
    raises. ASCII text is taken by every encoding.
\<close>

record python =
  json_loads :: "string \<Rightarrow> String.literal + pyval"
  isprintable :: "nat \<Rightarrow> bool"
  encode_error :: "pystr \<Rightarrow> String.literal option"

subsection \<open>\<open>str\<close> and \<open>repr\<close>\<close>

definition hex_escape :: "nat \<Rightarrow> pystr" where
  "hex_escape c =
     (if c < 256 then lit (backslash + STR ''x'' + hex2 c)
      else if c < 65536 then lit (backslash + STR ''u'' + hex4 c)
      else lit (backslash + STR ''U'' + hex8 c))"

text \<open>
  \<open>repr\<close> of one character of a string, inside the quote \<open>q\<close>: the quote and the
  backslash are escaped, tab, line feed and carriage return have their letters, the
  other control characters and the code points Python does not count as printable
  (in Latin-1: \<open>0x7F\<close> to \<open>0xA0\<close>, and \<open>0xAD\<close>) are written \<open>\xhh\<close>, \<open>\uhhhh\<close> or
  \<open>\Uhhhhhhhh\<close>.
\<close>

definition repr_char :: "python \<Rightarrow> nat \<Rightarrow> nat \<Rightarrow> pystr" where
  "repr_char py q c =
     (if c = q \<or> c = 92 then [92, c]
      else if c = 9 then lit (backslash + STR ''t'')
      else if c = 10 then lit (backslash + STR ''n'')
      else if c = 13 then lit (backslash + STR ''r'')
      else if c < 32 \<or> c = 127 then hex_escape c
      else if c < 127 then [c]
      else if c < 256 then (if c \<le> 160 \<or> c = 173 then hex_escape c else [c])
      else if isprintable py c then [c]
      else hex_escape c)"

definition repr_str :: "python \<Rightarrow> pystr \<Rightarrow> pystr" where
  "repr_str py s =
     (let q = (if 39 \<in> set s \<and> 34 \<notin> set s then 34 else 39)
      in q # concat (map (repr_char py q) s) @ [q])"

fun join :: "pystr \<Rightarrow> pystr list \<Rightarrow> pystr" where
  "join sep [] = []"
| "join sep [x] = x"
| "join sep (x # y # ys) = x @ sep @ join sep (y # ys)"

fun py_repr :: "python \<Rightarrow> pyval \<Rightarrow> pystr" where
  "py_repr py PyNone = lit (STR ''None'')"
| "py_repr py (PyBool b) = (if b then lit (STR ''True'') else lit (STR ''False''))"
| "py_repr py (PyInt i) = lit (str_int i)"
| "py_repr py (PyFloat r) = lit r"
| "py_repr py (PyStr s) = repr_str py s"
| "py_repr py (PyList xs) = lit (STR ''['') @ join (lit (STR '', '')) (map (py_repr py) xs) @ lit (STR '']'')"
| "py_repr py (PyDict kvs) =
     lit (STR ''{'') @
     join (lit (STR '', ''))
       (map (\<lambda>kv. repr_str py (fst kv) @ lit (STR '': '') @ py_repr py (snd kv)) kvs) @
     lit (STR ''}'')"

text \<open>
  What an f-string substitutes for \<open>{v}\<close>: \<open>format(v, '')\<close>, which is \<open>str(v)\<close>. A
  string is itself; for every other type here \<open>str\<close> is \<open>repr\<close>.
\<close>

fun py_str :: "python \<Rightarrow> pyval \<Rightarrow> pystr" where
  "py_str py (PyStr s) = s"
| "py_str py v = py_repr py v"

definition cmd :: "String.literal list" where
  "cmd = [STR ''curl'', STR ''-X'', STR ''GET'', STR ''http://localhost:5000/api/free-zones'']"

text \<open>\<open>str(e)\<close>, which \<open>f"Error: {e}"\<close> substitutes.\<close>

fun exn_str :: "python \<Rightarrow> exn \<Rightarrow> pystr" where
  "exn_str py (OSError d) = d"
| "exn_str py (CalledProcessError (Exited n)) =
     lit (STR ''Command '' + apostrophe) @ py_repr py (PyList (map (\<lambda>a. PyStr (lit a)) cmd)) @
     lit (apostrophe + STR '' returned non-zero exit status '' + digits n + STR ''.'')"
| "exn_str py (CalledProcessError (Signalled s)) =
     lit (STR ''Command '' + apostrophe) @ py_repr py (PyList (map (\<lambda>a. PyStr (lit a)) cmd)) @
     lit (apostrophe + STR '' died with '' + s + STR ''.'')"
| "exn_str py (ValueError d) = lit d"
| "exn_str py (KeyError k) = repr_str py (lit k)"
| "exn_str py (TypeError d) = lit d"
| "exn_str py (UnicodeEncodeError d) = lit d"

section \<open>The operations of the module body\<close>

text \<open>
  What running \<open>curl\<close> came to: the process could not be launched, or it ran, ended
  and left its standard output.
\<close>

datatype proc = LaunchFailure pystr | Finished ending string

text \<open>\<open>subprocess.check_output\<close>: the captured output when the exit status is 0.\<close>

fun check_output :: "proc \<Rightarrow> exn + string" where
  "check_output (LaunchFailure d) = Inl (OSError d)"
| "check_output (Finished e out) =
     (if e = Exited 0 then Inr out else Inl (CalledProcessError e))"

text \<open>
  \<open>zone[k]\<close> for a key \<open>k\<close> written in the program. A dictionary has one entry for each
  of its keys; only a dictionary can be subscripted with a string. The messages are
  CPython's (the one for a string is that of version 3.11 and later; before, it ended at
  \<open>integers\<close>).
\<close>

fun getitem :: "pyval \<Rightarrow> String.literal \<Rightarrow> exn + pyval" where
  "getitem (PyDict kvs) k =
     (case map_of kvs (lit k) of Some v \<Rightarrow> Inr v | None \<Rightarrow> Inl (KeyError k))"
| "getitem (PyList xs) k = Inl (TypeError (STR ''list indices must be integers or slices, not str''))"
| "getitem (PyStr s) k =
     Inl (TypeError (STR ''string indices must be integers, not 'str'' + apostrophe))"
| "getitem v k =
     Inl (TypeError (apostrophe + type_name v + apostrophe + STR '' object is not subscriptable''))"

text \<open>
  \<open>for zone in freezones\<close>: the elements of a list, the keys of a dictionary, the
  characters of a string; nothing else is iterable.
\<close>

fun iter :: "pyval \<Rightarrow> exn + pyval list" where
  "iter (PyList xs) = Inr xs"
| "iter (PyDict kvs) = Inr (map (\<lambda>kv. PyStr (fst kv)) kvs)"
| "iter (PyStr s) = Inr (map (\<lambda>c. PyStr [c]) s)"
| "iter v = Inl (TypeError (apostrophe + type_name v + apostrophe + STR '' object is not iterable''))"

text \<open>
  \<open>print(s)\<close> on the standard output written so far. The text is encoded first: when the
  encoder refuses it, \<open>UnicodeEncodeError\<close> is raised and nothing of the text is written;
  otherwise the text and a line feed are appended. Standard output itself is taken to be
  open and its device sound: a write never fails for another reason.
\<close>

definition print :: "python \<Rightarrow> pystr \<Rightarrow> pystr \<Rightarrow> exn + pystr" where
  "print py out s =
     (if ascii_only s then Inr (out @ s @ [10])
      else (case encode_error py s of
              None \<Rightarrow> Inr (out @ s @ [10])
            | Some d \<Rightarrow> Inl (UnicodeEncodeError d)))"

text \<open>
  The f-string \<open>f"ID: {zone['id']} - Name: {zone['name']}"\<close>: \<open>zone['id']\<close> is
  evaluated first, then \<open>zone['name']\<close>; the first exception leaves no text.
\<close>

definition record_line :: "python \<Rightarrow> pyval \<Rightarrow> exn + pystr" where
  "record_line py zone =
     (case getitem zone (STR ''id'') of
        Inl e \<Rightarrow> Inl e
      | Inr i \<Rightarrow>
          (case getitem zone (STR ''name'') of
             Inl e \<Rightarrow> Inl e
           | Inr n \<Rightarrow> Inr (lit (STR ''ID: '') @ py_str py i @ lit (STR '' - Name: '') @ py_str py n)))"

text \<open>
  The \<open>for\<close> loop over the elements still to come: standard output so far goes in, and
  comes out with the exception raised, if any, by the f-string or by \<open>print\<close>.
\<close>

fun for_loop :: "python \<Rightarrow> pyval list \<Rightarrow> pystr \<Rightarrow> pystr \<times> exn option" where
  "for_loop py [] out = (out, None)"
| "for_loop py (zone # rest) out =
     (case record_line py zone of
        Inl e \<Rightarrow> (out, Some e)
      | Inr l \<Rightarrow>
          (case print py out l of
             Inl e \<Rightarrow> (out, Some e)
           | Inr out' \<Rightarrow> for_loop py rest out'))"

text \<open>The \<open>try\<close> block: lines 6 to 12.\<close>

definition try_block :: "python \<Rightarrow> proc \<Rightarrow> pystr \<times> exn option" where
  "try_block py p =
     (case check_output p of
        Inl e \<Rightarrow> ([], Some e)
      | Inr output \<Rightarrow>
          (case json_loads py output of
             Inl d \<Rightarrow> ([], Some (ValueError d))
           | Inr freezones \<Rightarrow>
               (case print py [] (lit (STR ''Available Free Zones:'')) of
                  Inl e \<Rightarrow> ([], Some e)
                | Inr out1 \<Rightarrow>
                    (case print py out1 (lit (STR ''---------------------'')) of
                       Inl e \<Rightarrow> (out1, Some e)
                     | Inr out2 \<Rightarrow>
                         (case iter freezones of
                            Inl e \<Rightarrow> (out2, Some e)
                          | Inr zones \<Rightarrow> for_loop py zones out2)))))"

record outcome =
  stdout :: pystr
  exit_status :: nat

text \<open>
  The module body: the \<open>try\<close> block, and the handler \<open>except Exception as e\<close> that
  prints \<open>Error: {e}\<close> and calls \<open>sys.exit(1)\<close>. Without an exception the interpreter
  exits with status 0. An exception that \<open>print\<close> raises inside the handler is caught by
  nothing: the interpreter writes the traceback to standard error and exits with status 1.
\<close>

definition run :: "python \<Rightarrow> proc \<Rightarrow> outcome" where
  "run py p =
     (case try_block py p of
        (out, None) \<Rightarrow> \<lparr>stdout = out, exit_status = 0\<rparr>
      | (out, Some e) \<Rightarrow>
          (case print py out (lit (STR ''Error: '') @ exn_str py e) of
             Inr out' \<Rightarrow> \<lparr>stdout = out', exit_status = 1\<rparr>
           | Inl e' \<Rightarrow> \<lparr>stdout = out, exit_status = 1\<rparr>))"

section \<open>Vocabulary of the statements\<close>

text \<open>
  The element the loop is at: the line it prints, or the exception that the f-string or
  \<open>print\<close> raises there.
\<close>

definition line_result :: "python \<Rightarrow> pyval \<Rightarrow> exn + pystr" where
  "line_result py zone =
     (case record_line py zone of
        Inl e \<Rightarrow> Inl e
      | Inr l \<Rightarrow> (case print py [] l of Inl e \<Rightarrow> Inl e | Inr out \<Rightarrow> Inr l))"

text \<open>The number of lines of an output: the number of line feeds in it.\<close>

definition line_count :: "pystr \<Rightarrow> nat" where
  "line_count s = length (filter (\<lambda>c. c = 10) s)"

text \<open>
  An object with the keys \<open>id\<close> and \<open>name\<close>, and the text of its record line,
  \<open>ID: <id> - Name: <name>\<close>.
\<close>

definition has_fields :: "(pystr \<times> pyval) list \<Rightarrow> bool" where
  "has_fields d = (map_of d (lit (STR ''id'')) \<noteq> None \<and> map_of d (lit (STR ''name'')) \<noteq> None)"

definition zone_line :: "python \<Rightarrow> (pystr \<times> pyval) list \<Rightarrow> pystr" where
  "zone_line py d =
     lit (STR ''ID: '') @ py_str py (the (map_of d (lit (STR ''id'')))) @
     lit (STR '' - Name: '') @ py_str py (the (map_of d (lit (STR ''name''))))"

text \<open>Standard output takes the text: it is ASCII, or the encoder encodes it.\<close>

definition writable :: "python \<Rightarrow> pystr \<Rightarrow> bool" where
  "writable py s = (ascii_only s \<or> encode_error py s = None)"

text \<open>The top-level value is an array; an element is an object that lacks a key.\<close>

fun is_array :: "pyval \<Rightarrow> bool" where
  "is_array (PyList xs) = True"
| "is_array v = False"


text \<open>
  The exception a top-level value that is not an array ends with, unless it is empty: a
  number, a boolean or \<open>None\<close> is not iterable, and the first key of an object or the first
  character of a string is a string, which \<open>['id']\<close> cannot subscript.
\<close>

fun non_array_error :: "pyval \<Rightarrow> exn" where
  "non_array_error (PyDict kvs) =
     TypeError (STR ''string indices must be integers, not 'str'' + apostrophe)"
| "non_array_error (PyStr s) =
     TypeError (STR ''string indices must be integers, not 'str'' + apostrophe)"
| "non_array_error v =
     TypeError (apostrophe + type_name v + apostrophe + STR '' object is not iterable'')"

subsection \<open>An installation for the concrete runs\<close>

text \<open>
  A parser given by a finite table: a body of the table has the value listed with it (the
  value \<open>json.loads\<close> returns for that text), and every other body is refused with the
  message \<open>json.loads\<close> gives for a body that does not start with a JSON value.
\<close>

definition table_loads :: "(string \<times> pyval) list \<Rightarrow> string \<Rightarrow> String.literal + pyval" where
  "table_loads tbl body =
     (case map_of tbl body of
        Some v \<Rightarrow> Inr v
      | None \<Rightarrow> Inl (STR ''Expecting value: line 1 column 1 (char 0)''))"

text \<open>
  The UTF-8 encoder, which refuses the lone surrogates and nothing else, with CPython's
  description of the first run of them.
\<close>

definition surrogate :: "nat \<Rightarrow> bool" where
  "surrogate c = (55296 \<le> c \<and> c \<le> 57343)"

definition utf8 :: "pystr \<Rightarrow> String.literal option" where
  "utf8 s =
     (let pre = takeWhile (\<lambda>c. \<not> surrogate c) s;
          bad = takeWhile surrogate (dropWhile (\<lambda>c. \<not> surrogate c) s)
      in if bad = [] then None
         else if length bad = 1 then
           Some (STR '''utf-8' codec can't encode character '' + apostrophe + backslash + STR ''u''
                 + hex4 (hd bad) + apostrophe + STR '' in position '' + digits (length pre)
                 + STR '': surrogates not allowed'')
         else
           Some (STR '''utf-8' codec can't encode characters in position '' + digits (length pre)
                 + STR ''-'' + digits (length pre + length bad - 1)
                 + STR '': surrogates not allowed''))"

text \<open>
  The installation of the concrete runs: \<open>json.loads\<close> by table, standard output in UTF-8,
  and the code points of the given list as the printable ones from \<open>0x100\<close> on.
\<close>

definition installation :: "(string \<times> pyval) list \<Rightarrow> nat list \<Rightarrow> python" where
  "installation tbl printables =
     \<lparr>json_loads = table_loads tbl, isprintable = List.member printables, encode_error = utf8\<rparr>"

section \<open>Text, printing and the loop\<close>

lemmas lit_simps =
  lit_def String.Literal.rep_eq zero_literal.rep_eq plus_literal.rep_eq apostrophe_def backslash_def

lemmas run_simps =
  run_def try_block_def print_def record_line_def line_result_def installation_def table_loads_def
  utf8_def surrogate_def ascii_only_def writable_def has_fields_def zone_line_def line_count_def
  str_int_def digit_def repr_str_def repr_char_def hex_escape_def hex2_def hex4_def hex8_def cmd_def Let_def lit_simps

lemma literal_eq_iff: "a = b \<longleftrightarrow> String.explode a = String.explode b"
  by (simp add: literal.explode_inject)

lemma lit_ascii: "ascii_only (lit l)"
proof -
  have "\<forall>c\<in>set (String.explode l). \<not> digit7 c"
    using String.explode [of l] by simp
  moreover have "of_char c < (128::nat)" if "\<not> digit7 c" for c
    using that by (cases c) (simp add: of_char_Char horner_sum_of_bool_2_less)
  ultimately show ?thesis by (auto simp: lit_def ascii_only_def list_all_iff)
qed

lemma ascii_only_append: "ascii_only (a @ b) \<longleftrightarrow> ascii_only a \<and> ascii_only b"
  by (simp add: ascii_only_def)

lemma print_ascii: "ascii_only s \<Longrightarrow> print py out s = Inr (out @ s @ [10])"
  by (simp add: print_def)


lemma print_error_ascii: "print py out s = Inl e \<Longrightarrow> ascii_only (exn_str py e)"
  by (auto simp: print_def lit_ascii split: if_splits option.splits)

lemma repr_id: "repr_str py (lit (STR ''id'')) = lit (apostrophe + STR ''id'' + apostrophe)"
  by (simp add: repr_str_def repr_char_def lit_simps)

lemma repr_name: "repr_str py (lit (STR ''name'')) = lit (apostrophe + STR ''name'' + apostrophe)"
  by (simp add: repr_str_def repr_char_def lit_simps)

lemma getitem_error_ascii:
  "getitem z k = Inl e \<Longrightarrow> k = STR ''id'' \<or> k = STR ''name'' \<Longrightarrow> ascii_only (exn_str py e)"
  by (cases z) (auto simp: lit_ascii repr_id repr_name split: option.splits)

lemma record_line_error_ascii: "record_line py z = Inl e \<Longrightarrow> ascii_only (exn_str py e)"
  by (auto simp: record_line_def split: sum.splits dest: getitem_error_ascii)

lemma iter_error_ascii: "iter v = Inl e \<Longrightarrow> ascii_only (exn_str py e)"
  by (cases v) (auto simp: lit_ascii)

lemma line_result_error_ascii: "line_result py z = Inl e \<Longrightarrow> ascii_only (exn_str py e)"
  by (auto simp: line_result_def split: sum.splits
      dest: record_line_error_ascii print_error_ascii)

lemma repr_cmd:
  "py_repr py (PyList (map (\<lambda>a. PyStr (lit a)) cmd)) =
   lit (STR ''['curl', '-X', 'GET', 'http://localhost:5000/api/free-zones'' + apostrophe + STR '']'')"
  by (simp add: cmd_def repr_str_def repr_char_def lit_simps)

lemma called_process_error_ascii: "ascii_only (exn_str py (CalledProcessError e))"
  by (cases e) (simp_all only: exn_str.simps repr_cmd ascii_only_append lit_ascii simp_thms)

lemma handler_prints:
  "ascii_only (exn_str py e) \<Longrightarrow>
   print py out (lit (STR ''Error: '') @ exn_str py e) =
     Inr (out @ lit (STR ''Error: '') @ exn_str py e @ [10])"
  by (simp add: print_ascii ascii_only_append lit_ascii)

lemma header:
  "lit (STR ''Available Free Zones:'') @ [10] @ lit (STR ''---------------------'') @ [10] =
   lit (STR ''Available Free Zones:\<newline>---------------------\<newline>'')"
  by (simp add: lit_simps)






lemma print_any_out: "print py out s = Inl e \<Longrightarrow> print py out' s = Inl e"
  by (auto simp: print_def split: if_splits option.splits)

lemma print_Inr_any_out: "print py out s = Inr o1 \<Longrightarrow> print py out' s = Inr (out' @ s @ [10])"
  by (auto simp: print_def split: if_splits option.splits)

lemma loop_step_ok:
  "line_result py z = Inr l \<Longrightarrow>
   for_loop py (z # rest) out = for_loop py rest (out @ l @ [10])"
  by (auto simp: line_result_def split: sum.splits dest: print_Inr_any_out [where out' = out])

lemma loop_step_fail:
  "line_result py z = Inl e \<Longrightarrow> for_loop py (z # rest) out = (out, Some e)"
  by (auto simp: line_result_def split: sum.splits dest: print_any_out [where out' = out])

lemma for_loop_ok:
  "map (line_result py) zs = map Inr ls \<Longrightarrow>
   for_loop py zs out = (out @ concat (map (\<lambda>l. l @ [10]) ls), None)"
proof (induction zs arbitrary: out ls)
  case Nil
  then show ?case by simp
next
  case (Cons z zs)
  then obtain l ls' where ls: "ls = l # ls'" "line_result py z = Inr l"
      "map (line_result py) zs = map Inr ls'"
    by (cases ls) auto
  show ?case using Cons.IH [OF ls(3)] ls(1) by (simp add: loop_step_ok [OF ls(2)] del: for_loop.simps)
qed

lemma for_loop_fail:
  "map (line_result py) pre = map Inr ls \<Longrightarrow> line_result py z = Inl e \<Longrightarrow>
   for_loop py (pre @ z # rest) out = (out @ concat (map (\<lambda>l. l @ [10]) ls), Some e)"
proof (induction pre arbitrary: out ls)
  case Nil
  then show ?case by (simp add: loop_step_fail del: for_loop.simps)
next
  case (Cons a pre)
  then obtain l ls' where ls: "ls = l # ls'" "line_result py a = Inr l"
      "map (line_result py) pre = map Inr ls'"
    by (cases ls) auto
  show ?case using Cons.IH [OF ls(3) Cons.prems(2)] ls(1)
    by (simp add: loop_step_ok [OF ls(2)] del: for_loop.simps)
qed


lemma run_fetch_failed:
  "check_output p = Inl (CalledProcessError e) \<Longrightarrow>
   run py p =
     \<lparr>stdout = lit (STR ''Error: '') @ exn_str py (CalledProcessError e) @ [10], exit_status = 1\<rparr>"
  by (simp add: run_def try_block_def handler_prints called_process_error_ascii)

lemma run_parse_failed:
  "check_output p = Inr body \<Longrightarrow> json_loads py body = Inl d \<Longrightarrow>
   run py p = \<lparr>stdout = lit (STR ''Error: '') @ lit d @ [10], exit_status = 1\<rparr>"
  by (simp add: run_def try_block_def print_ascii ascii_only_append lit_ascii)

lemma try_block_parsed:
  "check_output p = Inr body \<Longrightarrow> json_loads py body = Inr v \<Longrightarrow>
   try_block py p =
     (case iter v of
        Inl e \<Rightarrow> (lit (STR ''Available Free Zones:\<newline>---------------------\<newline>''), Some e)
      | Inr zones \<Rightarrow>
          for_loop py zones (lit (STR ''Available Free Zones:\<newline>---------------------\<newline>'')))"
  by (simp add: try_block_def print_ascii lit_ascii header [symmetric] split: sum.split)

lemma run_iter_failed:
  "check_output p = Inr body \<Longrightarrow> json_loads py body = Inr v \<Longrightarrow> iter v = Inl e \<Longrightarrow>
   run py p =
     \<lparr>stdout = lit (STR ''Available Free Zones:\<newline>---------------------\<newline>'') @
               lit (STR ''Error: '') @ exn_str py e @ [10],
      exit_status = 1\<rparr>"
  by (simp add: run_def try_block_parsed [where py = py] handler_prints iter_error_ascii)

lemma run_loop_ok:
  "check_output p = Inr body \<Longrightarrow> json_loads py body = Inr v \<Longrightarrow> iter v = Inr zs \<Longrightarrow>
   map (line_result py) zs = map Inr ls \<Longrightarrow>
   run py p =
     \<lparr>stdout = lit (STR ''Available Free Zones:\<newline>---------------------\<newline>'') @
               concat (map (\<lambda>l. l @ [10]) ls),
      exit_status = 0\<rparr>"
  by (simp add: run_def try_block_parsed [where py = py] for_loop_ok)

lemma run_loop_failed:
  "check_output p = Inr body \<Longrightarrow> json_loads py body = Inr v \<Longrightarrow>
   iter v = Inr (pre @ z # rest) \<Longrightarrow>
   map (line_result py) pre = map Inr ls \<Longrightarrow> line_result py z = Inl e \<Longrightarrow>
   run py p =
     \<lparr>stdout = lit (STR ''Available Free Zones:\<newline>---------------------\<newline>'') @
               concat (map (\<lambda>l. l @ [10]) ls) @ lit (STR ''Error: '') @ exn_str py e @ [10],
      exit_status = 1\<rparr>"
  by (simp add: run_def try_block_parsed [where py = py] for_loop_fail handler_prints
      line_result_error_ascii)




section \<open>The listing of a well-formed array\<close>




section \<open>A body that \<open>json.loads\<close> refuses\<close>

text \<open>
  Claim C2, as the code has it. When \<open>curl\<close> exits with status 0 and \<open>json.loads\<close> raises
  on the body, standard output is the one text \<open>Error: <description>\<close> with its line feed
  and the exit status is 1. The header is not printed: the output does not begin with the
  first header line. The output is a single line when the description holds no line feed.
\<close>

theorem invalid_json_error_line:
  assumes "check_output p = Inr body" and "json_loads py body = Inl d"
  shows "run py p = \<lparr>stdout = lit (STR ''Error: '') @ lit d @ [10], exit_status = 1\<rparr>
         \<and> take 22 (stdout (run py p)) \<noteq> lit (STR ''Available Free Zones:\<newline>'')
         \<and> (10 \<notin> set (lit d) \<longrightarrow> line_count (stdout (run py p)) = 1)"
proof -
  have r: "run py p = \<lparr>stdout = lit (STR ''Error: '') @ lit d @ [10], exit_status = 1\<rparr>"
    using assms by (rule run_parse_failed)
  have "filter (\<lambda>c. c = 10) (lit d) = []" if "10 \<notin> set (lit d)"
    using that by (auto simp: filter_empty_conv)
  then have "line_count (stdout (run py p)) = 1" if "10 \<notin> set (lit d)"
    using that by (simp add: r line_count_def lit_simps)
  moreover have "take 22 (stdout (run py p)) \<noteq> lit (STR ''Available Free Zones:\<newline>'')"
    by (simp add: r lit_simps)
  ultimately show ?thesis using r by blast
qed

theorem invalid_json_error_line_witness:
  "run (installation [] []) (Finished (Exited 0) ''<html>'')
     = \<lparr>stdout = lit (STR ''Error: Expecting value: line 1 column 1 (char 0)\<newline>''), exit_status = 1\<rparr>
   \<and> line_count (stdout (run (installation [] []) (Finished (Exited 0) ''<html>''))) = 1"
proof -
  have h1: "check_output (Finished (Exited 0) ''<html>'') = Inr ''<html>''" by simp
  have h2: "json_loads (installation [] []) ''<html>'' = Inl (STR ''Expecting value: line 1 column 1 (char 0)'')"
    by (simp add: installation_def table_loads_def)
  from invalid_json_error_line [where py = "installation [] []" and body = "''<html>''", OF h1 h2]
  show ?thesis by (simp add: line_count_def lit_simps)
qed

text \<open>
  Claim C2 as it is written speaks of every body that is not valid JSON. \<open>json.loads\<close>
  accepts \<open>NaN\<close>, \<open>Infinity\<close> and \<open>-Infinity\<close>, which JSON does not have. On the body \<open>NaN\<close>
  it returns a float: both header lines are printed before the loop fails. On the body
  \<open>[{"id": NaN, "name": Infinity}]\<close> the run lists the record and exits with status 0.
\<close>

theorem lenient_parser_counterexample:
  "run (installation [(''NaN'', PyFloat (STR ''nan''))] []) (Finished (Exited 0) ''NaN'')
     = \<lparr>stdout = lit (STR ''Available Free Zones:\<newline>---------------------\<newline>Error: 'float' object is not iterable\<newline>''),
        exit_status = 1\<rparr>
   \<and> run (installation
            [(''[{\"id\": NaN, \"name\": Infinity}]'',
              PyList [PyDict [(lit (STR ''id''), PyFloat (STR ''nan'')),
                              (lit (STR ''name''), PyFloat (STR ''inf''))]])]
            [])
         (Finished (Exited 0) ''[{\"id\": NaN, \"name\": Infinity}]'')
     = \<lparr>stdout = lit (STR ''Available Free Zones:\<newline>---------------------\<newline>ID: nan - Name: inf\<newline>''),
        exit_status = 0\<rparr>"
  by (simp add: run_simps)

section \<open>A top-level value that is not an array\<close>

text \<open>
  Claim C3, as the code has it. The module body never checks the type of the parsed value.
  A body whose top-level value is not an array fails with \<open>Error: <description>\<close> and exit
  status 1, unless the value is the empty object or the empty string: either
  \<open>json.loads\<close> raises on it (a number of too many digits), and the error line is all the
  output; or the value is a number, a boolean or \<open>None\<close>, which is not iterable, or an
  object or a string that is not empty, whose first key or character \<open>['id']\<close> cannot
  subscript, and the error line follows the header.
\<close>

theorem non_array_fails:
  assumes "check_output p = Inr body"
  shows "(json_loads py body = Inl d \<longrightarrow>
            run py p = \<lparr>stdout = lit (STR ''Error: '') @ lit d @ [10], exit_status = 1\<rparr>)
         \<and> (json_loads py body = Inr v \<and> \<not> is_array v \<and> v \<noteq> PyDict [] \<and> v \<noteq> PyStr [] \<longrightarrow>
            run py p =
              \<lparr>stdout = lit (STR ''Available Free Zones:\<newline>---------------------\<newline>'') @
                        lit (STR ''Error: '') @ exn_str py (non_array_error v) @ [10],
               exit_status = 1\<rparr>)"
proof (intro conjI impI)
  assume "json_loads py body = Inl d"
  with assms show "run py p = \<lparr>stdout = lit (STR ''Error: '') @ lit d @ [10], exit_status = 1\<rparr>"
    by (rule run_parse_failed)
next
  assume a: "json_loads py body = Inr v \<and> \<not> is_array v \<and> v \<noteq> PyDict [] \<and> v \<noteq> PyStr []"
  then have l: "json_loads py body = Inr v" by simp
  have s: "line_result py (PyStr k) =
      Inl (TypeError (STR ''string indices must be integers, not 'str'' + apostrophe))" for k
    by (simp add: line_result_def record_line_def)
  show "run py p =
      \<lparr>stdout = lit (STR ''Available Free Zones:\<newline>---------------------\<newline>'') @
                lit (STR ''Error: '') @ exn_str py (non_array_error v) @ [10],
       exit_status = 1\<rparr>"
  proof (cases v)
    case (PyList xs)
    with a show ?thesis by simp
  next
    case (PyDict kvs)
    with a obtain kv rest where kvs: "kvs = kv # rest" by (cases kvs) auto
    have i: "iter v = Inr ([] @ PyStr (fst kv) # map (\<lambda>kv. PyStr (fst kv)) rest)"
      by (simp add: PyDict kvs)
    from run_loop_failed [where py = py and ls = "[]", OF assms l i _ s]
    show ?thesis by (simp add: PyDict)
  next
    case (PyStr t)
    with a obtain c rest where t: "t = c # rest" by (cases t) auto
    have i: "iter v = Inr ([] @ PyStr [c] # map (\<lambda>c. PyStr [c]) rest)"
      by (simp add: PyStr t)
    from run_loop_failed [where py = py and ls = "[]", OF assms l i _ s]
    show ?thesis by (simp add: PyStr)
  next
    case PyNone
    with run_iter_failed [where py = py, OF assms l] show ?thesis by simp
  next
    case (PyBool b)
    with run_iter_failed [where py = py, OF assms l] show ?thesis by simp
  next
    case (PyInt n)
    with run_iter_failed [where py = py, OF assms l] show ?thesis by simp
  next
    case (PyFloat r)
    with run_iter_failed [where py = py, OF assms l] show ?thesis by simp
  qed
qed

theorem non_array_fails_witness:
  "run (installation [(''42'', PyInt 42), (''{\"a\": 1}'', PyDict [(lit (STR ''a''), PyInt 1)])] [])
       (Finished (Exited 0) ''42'')
     = \<lparr>stdout = lit (STR ''Available Free Zones:\<newline>---------------------\<newline>Error: 'int' object is not iterable\<newline>''),
        exit_status = 1\<rparr>
   \<and> run (installation [(''42'', PyInt 42), (''{\"a\": 1}'', PyDict [(lit (STR ''a''), PyInt 1)])] [])
       (Finished (Exited 0) ''{\"a\": 1}'')
     = \<lparr>stdout = lit (STR ''Available Free Zones:\<newline>---------------------\<newline>Error: string indices must be integers, not 'str'' + apostrophe + STR ''\<newline>''),
        exit_status = 1\<rparr>
   \<and> run (installation [(''42'', PyInt 42), (''{\"a\": 1}'', PyDict [(lit (STR ''a''), PyInt 1)])] [])
       (Finished (Exited 0) '''')
     = \<lparr>stdout = lit (STR ''Error: Expecting value: line 1 column 1 (char 0)\<newline>''),
        exit_status = 1\<rparr>"
proof -
  let ?py = "installation [(''42'', PyInt 42), (''{\"a\": 1}'', PyDict [(lit (STR ''a''), PyInt 1)])] []"
  have a1: "check_output (Finished (Exited 0) ''42'') = Inr ''42''" by simp
  have a2: "json_loads ?py ''42'' = Inr (PyInt 42) \<and> \<not> is_array (PyInt 42)
            \<and> PyInt 42 \<noteq> PyDict [] \<and> PyInt 42 \<noteq> PyStr []"
    by (simp add: installation_def table_loads_def)
  have b1: "check_output (Finished (Exited 0) ''{\"a\": 1}'') = Inr ''{\"a\": 1}''" by simp
  have b2: "json_loads ?py ''{\"a\": 1}'' = Inr (PyDict [(lit (STR ''a''), PyInt 1)])
            \<and> \<not> is_array (PyDict [(lit (STR ''a''), PyInt 1)])
            \<and> PyDict [(lit (STR ''a''), PyInt 1)] \<noteq> PyDict []
            \<and> PyDict [(lit (STR ''a''), PyInt 1)] \<noteq> PyStr []"
    by (simp add: installation_def table_loads_def)
  have c1: "check_output (Finished (Exited 0) '''') = Inr ''''" by simp
  have c2: "json_loads ?py '''' = Inl (STR ''Expecting value: line 1 column 1 (char 0)'')"
    by (simp add: installation_def table_loads_def)
  from non_array_fails [where py = "?py" and v = "PyInt 42", OF a1] a2
  have a: "run ?py (Finished (Exited 0) ''42'') =
      \<lparr>stdout = lit (STR ''Available Free Zones:\<newline>---------------------\<newline>'') @
                lit (STR ''Error: '') @ exn_str ?py (non_array_error (PyInt 42)) @ [10],
       exit_status = 1\<rparr>"
    by blast
  from non_array_fails [where py = "?py" and v = "PyDict [(lit (STR ''a''), PyInt 1)]", OF b1] b2
  have b: "run ?py (Finished (Exited 0) ''{\"a\": 1}'') =
      \<lparr>stdout = lit (STR ''Available Free Zones:\<newline>---------------------\<newline>'') @
                lit (STR ''Error: '') @ exn_str ?py (non_array_error (PyDict [(lit (STR ''a''), PyInt 1)])) @ [10],
       exit_status = 1\<rparr>"
    by blast
  from non_array_fails [where py = "?py" and d = "STR ''Expecting value: line 1 column 1 (char 0)''", OF c1] c2
  have c: "run ?py (Finished (Exited 0) '''') =
      \<lparr>stdout = lit (STR ''Error: '') @ lit (STR ''Expecting value: line 1 column 1 (char 0)'') @ [10],
       exit_status = 1\<rparr>"
    by blast
  from a b c show ?thesis by (simp add: lit_simps)
qed

text \<open>
  Claim C3 as it is written has every top-level value that is not an array fail. The body
  \<open>{}\<close> parses to the empty object, which is not an array; the loop has nothing to iterate,
  so the run prints the header and exits with status 0.
\<close>

theorem non_array_counterexample:
  "\<not> is_array (PyDict [])
   \<and> run (installation [(''{}'', PyDict [])] []) (Finished (Exited 0) ''{}'')
     = \<lparr>stdout = lit (STR ''Available Free Zones:\<newline>---------------------\<newline>''), exit_status = 0\<rparr>"
  by (simp add: run_simps)

section \<open>An element without \<open>id\<close> or \<open>name\<close>\<close>




section \<open>Failure after the header\<close>

text \<open>
  Claim C5. Once the body has parsed, the header is printed, and a later failure keeps
  everything printed so far. If the value is not iterable, the output is the header and the
  error line. If the loop fails at element \<open>k\<close> (the elements are \<open>pre @ z # rest\<close> with
  \<open>k = length pre\<close>, every element of \<open>pre\<close> has printed its record line, and at \<open>z\<close> the
  f-string or \<open>print\<close> raises \<open>e\<close>), the output is the header, the record lines of \<open>pre\<close> in
  order, and the error line, with exit status 1. The outcome is the same for every \<open>rest\<close>:
  the elements after \<open>z\<close> are never looked at.
\<close>

theorem failure_keeps_printed_lines:
  assumes "check_output p = Inr body" and "json_loads py body = Inr v"
  shows "(iter v = Inl e \<longrightarrow>
            run py p =
              \<lparr>stdout = lit (STR ''Available Free Zones:\<newline>---------------------\<newline>'') @
                        lit (STR ''Error: '') @ exn_str py e @ [10],
               exit_status = 1\<rparr>)
         \<and> (iter v = Inr (pre @ z # rest) \<and> map (line_result py) pre = map Inr ls
              \<and> line_result py z = Inl e \<longrightarrow>
            run py p =
              \<lparr>stdout = lit (STR ''Available Free Zones:\<newline>---------------------\<newline>'') @
                        concat (map (\<lambda>l. l @ [10]) ls) @
                        lit (STR ''Error: '') @ exn_str py e @ [10],
               exit_status = 1\<rparr>)"
  using run_iter_failed [where py = py, OF assms] run_loop_failed [where py = py, OF assms]
  by blast

theorem failure_keeps_printed_lines_witness:
  "run (installation
          [(''[{\"id\": 1, \"name\": \"A\"}, 7, {\"id\": 3, \"name\": \"C\"}]'',
            PyList [PyDict [(lit (STR ''id''), PyInt 1), (lit (STR ''name''), PyStr (lit (STR ''A'')))],
                    PyInt 7,
                    PyDict [(lit (STR ''id''), PyInt 3), (lit (STR ''name''), PyStr (lit (STR ''C'')))]]),
           (''[{\"id\": 1, \"name\": \"A\"}, {\"id\": 2, \"name\": \"'' @ [CHR 0x5C] @ ''udc00\"}]'',
            PyList [PyDict [(lit (STR ''id''), PyInt 1), (lit (STR ''name''), PyStr (lit (STR ''A'')))],
                    PyDict [(lit (STR ''id''), PyInt 2), (lit (STR ''name''), PyStr [56320])]]),
           (''null'', PyNone)]
          [])
       (Finished (Exited 0) ''[{\"id\": 1, \"name\": \"A\"}, 7, {\"id\": 3, \"name\": \"C\"}]'')
     = \<lparr>stdout = lit (STR ''Available Free Zones:\<newline>---------------------\<newline>ID: 1 - Name: A\<newline>Error: 'int' object is not subscriptable\<newline>''),
        exit_status = 1\<rparr>
   \<and> run (installation
          [(''[{\"id\": 1, \"name\": \"A\"}, 7, {\"id\": 3, \"name\": \"C\"}]'',
            PyList [PyDict [(lit (STR ''id''), PyInt 1), (lit (STR ''name''), PyStr (lit (STR ''A'')))],
                    PyInt 7,
                    PyDict [(lit (STR ''id''), PyInt 3), (lit (STR ''name''), PyStr (lit (STR ''C'')))]]),
           (''[{\"id\": 1, \"name\": \"A\"}, {\"id\": 2, \"name\": \"'' @ [CHR 0x5C] @ ''udc00\"}]'',
            PyList [PyDict [(lit (STR ''id''), PyInt 1), (lit (STR ''name''), PyStr (lit (STR ''A'')))],
                    PyDict [(lit (STR ''id''), PyInt 2), (lit (STR ''name''), PyStr [56320])]]),
           (''null'', PyNone)]
          [])
       (Finished (Exited 0) (''[{\"id\": 1, \"name\": \"A\"}, {\"id\": 2, \"name\": \"'' @ [CHR 0x5C] @ ''udc00\"}]''))
     = \<lparr>stdout = lit (STR ''Available Free Zones:\<newline>---------------------\<newline>ID: 1 - Name: A\<newline>Error: 'utf-8' codec can't encode character ''
                     + apostrophe + backslash
                     + STR ''udc00' in position 14: surrogates not allowed\<newline>''),
        exit_status = 1\<rparr>
   \<and> run (installation
          [(''[{\"id\": 1, \"name\": \"A\"}, 7, {\"id\": 3, \"name\": \"C\"}]'',
            PyList [PyDict [(lit (STR ''id''), PyInt 1), (lit (STR ''name''), PyStr (lit (STR ''A'')))],
                    PyInt 7,
                    PyDict [(lit (STR ''id''), PyInt 3), (lit (STR ''name''), PyStr (lit (STR ''C'')))]]),
           (''[{\"id\": 1, \"name\": \"A\"}, {\"id\": 2, \"name\": \"'' @ [CHR 0x5C] @ ''udc00\"}]'',
            PyList [PyDict [(lit (STR ''id''), PyInt 1), (lit (STR ''name''), PyStr (lit (STR ''A'')))],
                    PyDict [(lit (STR ''id''), PyInt 2), (lit (STR ''name''), PyStr [56320])]]),
           (''null'', PyNone)]
          [])
       (Finished (Exited 0) ''null'')
     = \<lparr>stdout = lit (STR ''Available Free Zones:\<newline>---------------------\<newline>Error: 'NoneType' object is not iterable\<newline>''),
        exit_status = 1\<rparr>"
proof -
  let ?a = "''[{\"id\": 1, \"name\": \"A\"}, 7, {\"id\": 3, \"name\": \"C\"}]''"
  let ?b = "''[{\"id\": 1, \"name\": \"A\"}, {\"id\": 2, \"name\": \"'' @ [CHR 0x5C] @ ''udc00\"}]''"
  let ?pre = "[PyDict [(lit (STR ''id''), PyInt 1), (lit (STR ''name''), PyStr (lit (STR ''A'')))]]"
  let ?rest = "[PyDict [(lit (STR ''id''), PyInt 3), (lit (STR ''name''), PyStr (lit (STR ''C'')))]]"
  let ?s = "PyDict [(lit (STR ''id''), PyInt 2), (lit (STR ''name''), PyStr [56320])]"
  let ?py = "installation
     [(?a, PyList (?pre @ PyInt 7 # ?rest)), (?b, PyList (?pre @ ?s # [])), (''null'', PyNone)] []"
  let ?e = "TypeError (apostrophe + STR ''int'' + apostrophe + STR '' object is not subscriptable'')"
  let ?u = "UnicodeEncodeError (STR '''utf-8' codec can't encode character '' + apostrophe + backslash
              + STR ''udc00' in position 14: surrogates not allowed'')"
  let ?n = "TypeError (apostrophe + STR ''NoneType'' + apostrophe + STR '' object is not iterable'')"
  have a1: "check_output (Finished (Exited 0) ?a) = Inr ?a" by simp
  have a2: "json_loads ?py ?a = Inr (PyList (?pre @ PyInt 7 # ?rest))"
    by (simp add: installation_def table_loads_def)
  have pre: "map (line_result ?py) ?pre = map Inr [lit (STR ''ID: 1 - Name: A'')]"
    by (simp add: run_simps)
  have a3: "iter (PyList (?pre @ PyInt 7 # ?rest)) = Inr (?pre @ PyInt 7 # ?rest)
            \<and> map (line_result ?py) ?pre = map Inr [lit (STR ''ID: 1 - Name: A'')]
            \<and> line_result ?py (PyInt 7) = Inl ?e"
    using pre by (simp add: line_result_def record_line_def)
  have b1: "check_output (Finished (Exited 0) ?b) = Inr ?b" by simp
  have b2: "json_loads ?py ?b = Inr (PyList (?pre @ ?s # []))"
    by (simp add: installation_def table_loads_def)
  have s: "line_result ?py ?s = Inl ?u"
    by (simp add: run_simps literal_eq_iff)
  have b3: "iter (PyList (?pre @ ?s # [])) = Inr (?pre @ ?s # [])
            \<and> map (line_result ?py) ?pre = map Inr [lit (STR ''ID: 1 - Name: A'')]
            \<and> line_result ?py ?s = Inl ?u"
    using pre s by simp
  have c1: "check_output (Finished (Exited 0) ''null'') = Inr ''null''" by simp
  have c2: "json_loads ?py ''null'' = Inr PyNone" by (simp add: installation_def table_loads_def)
  have c3: "iter PyNone = Inl ?n" by simp
  from failure_keeps_printed_lines [where py = "?py" and body = "?a" and e = "?e" and pre = "?pre"
      and z = "PyInt 7" and rest = "?rest" and ls = "[lit (STR ''ID: 1 - Name: A'')]", OF a1 a2] a3
  have a: "run ?py (Finished (Exited 0) ?a) =
      \<lparr>stdout = lit (STR ''Available Free Zones:\<newline>---------------------\<newline>'') @
                concat (map (\<lambda>l. l @ [10]) [lit (STR ''ID: 1 - Name: A'')]) @
                lit (STR ''Error: '') @ exn_str ?py ?e @ [10],
       exit_status = 1\<rparr>"
    by blast
  from failure_keeps_printed_lines [where py = "?py" and body = "?b" and e = "?u" and pre = "?pre"
      and z = "?s" and rest = "[]" and ls = "[lit (STR ''ID: 1 - Name: A'')]", OF b1 b2] b3
  have b: "run ?py (Finished (Exited 0) ?b) =
      \<lparr>stdout = lit (STR ''Available Free Zones:\<newline>---------------------\<newline>'') @
                concat (map (\<lambda>l. l @ [10]) [lit (STR ''ID: 1 - Name: A'')]) @
                lit (STR ''Error: '') @ exn_str ?py ?u @ [10],
       exit_status = 1\<rparr>"
    by blast
  from failure_keeps_printed_lines [where py = "?py" and body = "''null''" and e = "?n", OF c1 c2] c3
  have c: "run ?py (Finished (Exited 0) ''null'') =
      \<lparr>stdout = lit (STR ''Available Free Zones:\<newline>---------------------\<newline>'') @
                lit (STR ''Error: '') @ exn_str ?py ?n @ [10],
       exit_status = 1\<rparr>"
    by blast
  from a b c show ?thesis by (simp add: lit_simps)
qed

section \<open>A non-zero exit status of the child process\<close>

text \<open>
  Claim C6. When \<open>curl\<close> ends with anything but exit status 0, \<open>check_output\<close> raises
  \<open>CalledProcessError\<close>, whatever the captured output and the installation are; the run
  prints \<open>Error: <description>\<close> and exits with status 1.
\<close>

theorem nonzero_exit_is_failure:
  assumes "e \<noteq> Exited 0"
  shows "run py (Finished e out) =
           \<lparr>stdout = lit (STR ''Error: '') @ exn_str py (CalledProcessError e) @ [10],
            exit_status = 1\<rparr>"
  using assms by (simp add: run_fetch_failed)

theorem nonzero_exit_is_failure_witness:
  "Exited 7 \<noteq> Exited 0
   \<and> run (installation [(''[]'', PyList [])] []) (Finished (Exited 7) ''[]'') =
      \<lparr>stdout = lit (STR ''Error: Command '' + apostrophe
                     + STR ''['curl', '-X', 'GET', 'http://localhost:5000/api/free-zones']''
                     + apostrophe + STR '' returned non-zero exit status 7.\<newline>''),
       exit_status = 1\<rparr>"
proof -
  have h: "Exited 7 \<noteq> Exited 0" by simp
  from nonzero_exit_is_failure [OF h, of "installation [(''[]'', PyList [])] []" "''[]''"] h
  show ?thesis by (simp add: run_simps)
qed

section \<open>The record line\<close>



section \<open>The empty object and the empty string\<close>

text \<open>
  Claim C9. A body that parses to the empty object or to the empty string is valid JSON
  and not an array, and the run succeeds on it: the loop iterates nothing, the output is
  the two header lines with no error line, and the exit status is 0. The bodies \<open>{}\<close> and
  \<open>""\<close> are such bodies.
\<close>

theorem empty_object_or_string_succeeds:
  assumes "check_output p = Inr body" and "json_loads py body = Inr v"
    and "v = PyDict [] \<or> v = PyStr []"
  shows "run py p =
           \<lparr>stdout = lit (STR ''Available Free Zones:\<newline>---------------------\<newline>''),
            exit_status = 0\<rparr>"
proof -
  have i: "iter v = Inr []" using assms(3) by auto
  from run_loop_ok [where py = py and ls = "[]", OF assms(1,2) i] show ?thesis by simp
qed

theorem empty_object_or_string_succeeds_witness:
  "run (installation [(''{}'', PyDict []), (''\"\"'', PyStr [])] []) (Finished (Exited 0) ''{}'')
     = \<lparr>stdout = lit (STR ''Available Free Zones:\<newline>---------------------\<newline>''), exit_status = 0\<rparr>
   \<and> run (installation [(''{}'', PyDict []), (''\"\"'', PyStr [])] []) (Finished (Exited 0) ''\"\"'')
     = \<lparr>stdout = lit (STR ''Available Free Zones:\<newline>---------------------\<newline>''), exit_status = 0\<rparr>"
proof -
  let ?py = "installation [(''{}'', PyDict []), (''\"\"'', PyStr [])] []"
  have a1: "check_output (Finished (Exited 0) ''{}'') = Inr ''{}''" by simp
  have a2: "json_loads ?py ''{}'' = Inr (PyDict [])" by (simp add: installation_def table_loads_def)
  have a3: "PyDict [] = PyDict [] \<or> PyDict [] = PyStr []" by simp
  have b1: "check_output (Finished (Exited 0) ''\"\"'') = Inr ''\"\"''" by simp
  have b2: "json_loads ?py ''\"\"'' = Inr (PyStr [])" by (simp add: installation_def table_loads_def)
  have b3: "PyStr [] = PyDict [] \<or> PyStr [] = PyStr []" by simp
  from empty_object_or_string_succeeds [where py = "?py" and body = "''{}''", OF a1 a2 a3]
    empty_object_or_string_succeeds [where py = "?py" and body = "''\"\"''", OF b1 b2 b3]
  show ?thesis by simp
qed

section \<open>Fields other than \<open>id\<close> and \<open>name\<close>\<close>



end
